theory Spec2Isabelle
  imports Complex_Main
begin

section \<open>Numbers, text and errors\<close>

text \<open>
  The module computes with Python numbers: \<^verbatim>\<open>int\<close> and \<^verbatim>\<open>float\<close> values that meet
  in \<^verbatim>\<open>*\<close>, \<^verbatim>\<open>/\<close>, \<^verbatim>\<open>+\<close>, \<^verbatim>\<open>-\<close>, \<^verbatim>\<open>**\<close> and \<^verbatim>\<open>//\<close>. They are embedded as
  rationals: every \<^verbatim>\<open>int\<close> is a rational, \<^verbatim>\<open>/\<close> is true division, and a decimal literal
  such as \<^verbatim>\<open>0.65\<close> denotes the rational it is written as. The rounding of binary
  floating point is outside this embedding. The arithmetic of the workout classes is
  on finite numbers; the floats that a message can hold are modelled with it.

  Text is a byte string: the UTF-8 encoding of the Python \<^verbatim>\<open>str\<close>. The Russian literals
  of the module are written by their bytes, as numbers or as characters \<open>CHR 0xD0\<close>.
\<close>

type_synonym number = rat

definition utf8 :: "nat list \<Rightarrow> string" where
  "utf8 bs = map char_of bs"

datatype error =
    ZeroDivisionError
  | NotImplementedError string
  | ValueError string
  | KeyError string
  | TypeError


section \<open>The workout classes\<close>

text \<open>
  \<^verbatim>\<open>class Training\<close> and its subclasses \<^verbatim>\<open>Running\<close>, \<^verbatim>\<open>SportsWalking\<close> and
  \<^verbatim>\<open>Swimming\<close>. An instance is its class together with the attributes that the
  class's \<^verbatim>\<open>__init__\<close> stores.
\<close>

datatype training =
    Training (action: number) (duration: number) (weight: number)
  | Running (action: number) (duration: number) (weight: number)
  | SportsWalking (action: number) (duration: number) (weight: number) (height: number)
  | Swimming (action: number) (duration: number) (weight: number)
      (length_pool: number) (count_pool: number)

text \<open>\<^verbatim>\<open>self.__class__.__name__\<close>\<close>

fun class_name :: "training \<Rightarrow> string" where
  "class_name (Training _ _ _) = ''Training''"
| "class_name (Running _ _ _) = ''Running''"
| "class_name (SportsWalking _ _ _ _) = ''SportsWalking''"
| "class_name (Swimming _ _ _ _ _) = ''Swimming''"

text \<open>Class constants. \<^verbatim>\<open>Swimming\<close> overrides \<^verbatim>\<open>LEN_STEP\<close>; the others inherit it.\<close>

definition MIN_IN_HOUR :: number where
  "MIN_IN_HOUR = 60"

definition M_IN_KM :: number where
  "M_IN_KM = 1000"

fun LEN_STEP :: "training \<Rightarrow> number" where
  "LEN_STEP (Swimming _ _ _ _ _) = 1.38"
| "LEN_STEP _ = 0.65"

definition COEF_CALORIE_1 :: number where
  "COEF_CALORIE_1 = 18"

definition COEF_CALORIE_2 :: number where
  "COEF_CALORIE_2 = 20"

definition COEFF_CALORIE_1 :: number where
  "COEFF_CALORIE_1 = 0.035"

definition COEFF_CALORIE_2 :: number where
  "COEFF_CALORIE_2 = 0.029"

definition COEFF_SQUARE :: nat where
  "COEFF_SQUARE = 2"

definition COEF_SWM :: number where
  "COEF_SWM = 2"

definition COEF_CALORIE :: number where
  "COEF_CALORIE = 1.1"

text \<open>
  Python's \<^verbatim>\<open>/\<close> and \<^verbatim>\<open>//\<close> raise \<^verbatim>\<open>ZeroDivisionError\<close> on a zero divisor; \<^verbatim>\<open>//\<close>
  rounds the quotient down to a whole number.
\<close>

definition truediv :: "number \<Rightarrow> number \<Rightarrow> error + number" where
  "truediv a b = (if b = 0 then Inl ZeroDivisionError else Inr (a / b))"

definition floordiv :: "number \<Rightarrow> number \<Rightarrow> error + number" where
  "floordiv a b = (if b = 0 then Inl ZeroDivisionError else Inr (of_int \<lfloor>a / b\<rfloor>))"

text \<open>\<^verbatim>\<open>Training.get_distance\<close>, inherited by every subclass.\<close>

definition get_distance :: "training \<Rightarrow> number" where
  "get_distance self =
     (let distance_meters = action self * LEN_STEP self;
          distance = distance_meters / M_IN_KM
      in distance)"

text \<open>\<^verbatim>\<open>Training.get_mean_speed\<close>, overridden by \<^verbatim>\<open>Swimming.get_mean_speed\<close>.\<close>

fun get_mean_speed :: "training \<Rightarrow> error + number" where
  "get_mean_speed (Swimming a d w lp cp) =
     (let distance_meters = lp * cp;
          distance_km = distance_meters / M_IN_KM
      in truediv distance_km d)"
| "get_mean_speed self = truediv (get_distance self) (duration self)"

text \<open>
  \<^verbatim>\<open>get_spent_calories\<close>: the base method raises, each subclass overrides it. The
  statements run in the order of the source, so the first failing division decides
  the error.
\<close>

definition not_implemented_message :: "string \<Rightarrow> string" where
  "not_implemented_message cls =
     utf8 [0xD0, 0x92, 0x20, 0xD0, 0xBA, 0xD0, 0xBB, 0xD0, 0xB0, 0xD1, 0x81, 0xD1, 0x81,
           0xD0, 0xB5, 0x20]
     @ cls
     @ utf8 [0x20, 0xD0, 0xBD, 0xD0, 0xB5, 0x20, 0xD0, 0xBE, 0xD0, 0xBF, 0xD1, 0x80, 0xD0,
             0xB5, 0xD0, 0xB4, 0xD0, 0xB5, 0xD0, 0xBB, 0xD1, 0x91, 0xD0, 0xBD, 0x20, 0xD0,
             0xBC, 0xD0, 0xB5, 0xD1, 0x82, 0xD0, 0xBE, 0xD0, 0xB4, 0x20]
     @ ''<get_spent_calories>!''"

fun get_spent_calories :: "training \<Rightarrow> error + number" where
  "get_spent_calories (Training a d w) =
     Inl (NotImplementedError (not_implemented_message (class_name (Training a d w))))"
| "get_spent_calories (Running a d w) =
     (let duration_min = d * MIN_IN_HOUR
      in case get_mean_speed (Running a d w) of
           Inl e \<Rightarrow> Inl e
         | Inr mean_speed \<Rightarrow>
             (let calc_speed_coef = COEF_CALORIE_1 * mean_speed;
                  calc_avg_speed = (calc_speed_coef - COEF_CALORIE_2) * w;
                  spent_calories = calc_avg_speed / M_IN_KM * duration_min
              in Inr spent_calories))"
| "get_spent_calories (SportsWalking a d w h) =
     (let duration_min = d * MIN_IN_HOUR
      in case get_mean_speed (SportsWalking a d w h) of
           Inl e \<Rightarrow> Inl e
         | Inr mean_speed \<Rightarrow>
             (case floordiv (mean_speed ^ COEFF_SQUARE) h of
                Inl e \<Rightarrow> Inl e
              | Inr calc_formula \<Rightarrow>
                  (let calc_weight_coef1 = COEFF_CALORIE_1 * w;
                       calc_weight_coef2 = COEFF_CALORIE_2 * w;
                       spent_calories =
                         (calc_weight_coef1 + calc_formula * calc_weight_coef2) * duration_min
                   in Inr spent_calories)))"
| "get_spent_calories (Swimming a d w lp cp) =
     (case get_mean_speed (Swimming a d w lp cp) of
        Inl e \<Rightarrow> Inl e
      | Inr mean_speed \<Rightarrow>
          (let coef_speed = mean_speed + COEF_CALORIE;
               coef_swim = coef_speed * COEF_SWM;
               spent_calories = coef_swim * w
           in Inr spent_calories))"



section \<open>The message about a workout\<close>

text \<open>
  The fields \<^verbatim>\<open>duration\<close>, \<^verbatim>\<open>distance\<close>, \<^verbatim>\<open>speed\<close> and \<^verbatim>\<open>calories\<close> of an
  \<^verbatim>\<open>InfoMessage\<close> are floats, and a float need not be a number: it is a finite
  number, negative zero, an infinity or NaN. A finite float is taken as the rational
  it stands for, as in the workout classes.
\<close>

datatype pyfloat = Finite number | Neg_zero | Infinity | Neg_infinity | NaN

text \<open>
  The sixth field of the dataclass, \<^verbatim>\<open>string_ru\<close>, is the template of the message.
  A template is kept as \<^verbatim>\<open>str.format\<close> reads it: literal text and replacement fields
  \<^verbatim>\<open>{name}\<close> or \<^verbatim>\<open>{name:.3f}\<close>, in order. Conversions, nested fields and other format
  specifications do not occur in the module and are not represented. The field
  \<^verbatim>\<open>duration\<close> is named \<open>duration_msg\<close> here, apart from the attribute of the
  workout.
\<close>

datatype format_spec = No_spec | Fixed_3f

datatype piece = Literal string | Field string format_spec

record InfoMessage =
  training_type :: string
  duration_msg :: pyfloat
  distance :: pyfloat
  speed :: pyfloat
  calories :: pyfloat
  string_ru :: "piece list"

text \<open>
  The format specification \<^verbatim>\<open>.3f\<close> on a finite number: fixed-point notation with
  three digits after the point, the value rounded to the nearest thousandth (a tie
  goes to the even neighbour) and a minus sign for a negative value.
\<close>

definition round_half_even :: "number \<Rightarrow> int" where
  "round_half_even x =
     (let n = \<lfloor>x\<rfloor>; r = x - of_int n
      in if r < 1 / 2 then n
         else if 1 / 2 < r then n + 1
         else if even n then n else n + 1)"

definition digit :: "nat \<Rightarrow> char" where
  "digit d = ''0123456789'' ! (d mod 10)"

fun decimal :: "nat \<Rightarrow> string" where
  "decimal n = (if n < 10 then [digit n] else decimal (n div 10) @ [digit (n mod 10)])"

declare decimal.simps [simp del]

definition fixed_point_3 :: "number \<Rightarrow> string" where
  "fixed_point_3 x =
     (let thousandths = nat (round_half_even (\<bar>x\<bar> * 1000))
      in (if x < 0 then ''-'' else [])
         @ decimal (thousandths div 1000)
         @ ''.''
         @ [digit (thousandths div 100), digit (thousandths div 10), digit thousandths])"

text \<open>
  The format specification \<^verbatim>\<open>.3f\<close> on a float. Negative zero keeps its sign; an
  infinity and NaN are written by name, without digits.
\<close>

fun format_3f :: "pyfloat \<Rightarrow> string" where
  "format_3f (Finite x) = fixed_point_3 x"
| "format_3f Neg_zero = ''-0.000''"
| "format_3f Infinity = ''inf''"
| "format_3f Neg_infinity = ''-inf''"
| "format_3f NaN = ''nan''"




text \<open>The literal parts of the default \<^verbatim>\<open>string_ru\<close>, in order.\<close>

definition string_ru_type :: string where
  "string_ru_type =
     [CHR 0xD0, CHR 0xA2, CHR 0xD0, CHR 0xB8, CHR 0xD0, CHR 0xBF, CHR 0x20, CHR 0xD1,
      CHR 0x82, CHR 0xD1, CHR 0x80, CHR 0xD0, CHR 0xB5, CHR 0xD0, CHR 0xBD, CHR 0xD0,
      CHR 0xB8, CHR 0xD1, CHR 0x80, CHR 0xD0, CHR 0xBE, CHR 0xD0, CHR 0xB2, CHR 0xD0,
      CHR 0xBA, CHR 0xD0, CHR 0xB8, CHR 0x3A, CHR 0x20]"

definition string_ru_duration :: string where
  "string_ru_duration =
     [CHR 0x3B, CHR 0x20, CHR 0xD0, CHR 0x94, CHR 0xD0, CHR 0xBB, CHR 0xD0, CHR 0xB8,
      CHR 0xD1, CHR 0x82, CHR 0xD0, CHR 0xB5, CHR 0xD0, CHR 0xBB, CHR 0xD1, CHR 0x8C,
      CHR 0xD0, CHR 0xBD, CHR 0xD0, CHR 0xBE, CHR 0xD1, CHR 0x81, CHR 0xD1, CHR 0x82,
      CHR 0xD1, CHR 0x8C, CHR 0x3A, CHR 0x20]"

definition string_ru_distance :: string where
  "string_ru_distance =
     [CHR 0x20, CHR 0xD1, CHR 0x87, CHR 0x2E, CHR 0x3B, CHR 0x20, CHR 0xD0, CHR 0x94,
      CHR 0xD0, CHR 0xB8, CHR 0xD1, CHR 0x81, CHR 0xD1, CHR 0x82, CHR 0xD0, CHR 0xB0,
      CHR 0xD0, CHR 0xBD, CHR 0xD1, CHR 0x86, CHR 0xD0, CHR 0xB8, CHR 0xD1, CHR 0x8F,
      CHR 0x3A, CHR 0x20]"

definition string_ru_speed :: string where
  "string_ru_speed =
     [CHR 0x20, CHR 0xD0, CHR 0xBA, CHR 0xD0, CHR 0xBC, CHR 0x3B, CHR 0x20, CHR 0xD0,
      CHR 0xA1, CHR 0xD1, CHR 0x80, CHR 0x2E, CHR 0x20, CHR 0xD1, CHR 0x81, CHR 0xD0,
      CHR 0xBA, CHR 0xD0, CHR 0xBE, CHR 0xD1, CHR 0x80, CHR 0xD0, CHR 0xBE, CHR 0xD1,
      CHR 0x81, CHR 0xD1, CHR 0x82, CHR 0xD1, CHR 0x8C, CHR 0x3A, CHR 0x20]"

definition string_ru_calories :: string where
  "string_ru_calories =
     [CHR 0x20, CHR 0xD0, CHR 0xBA, CHR 0xD0, CHR 0xBC, CHR 0x2F, CHR 0xD1, CHR 0x87,
      CHR 0x3B, CHR 0x20, CHR 0xD0, CHR 0x9F, CHR 0xD0, CHR 0xBE, CHR 0xD1, CHR 0x82,
      CHR 0xD1, CHR 0x80, CHR 0xD0, CHR 0xB0, CHR 0xD1, CHR 0x87, CHR 0xD0, CHR 0xB5,
      CHR 0xD0, CHR 0xBD, CHR 0xD0, CHR 0xBE, CHR 0x20, CHR 0xD0, CHR 0xBA, CHR 0xD0,
      CHR 0xBA, CHR 0xD0, CHR 0xB0, CHR 0xD0, CHR 0xBB, CHR 0x3A, CHR 0x20]"

text \<open>The default value of \<^verbatim>\<open>string_ru\<close>.\<close>

definition string_ru_default :: "piece list" where
  "string_ru_default =
     [Literal string_ru_type, Field ''training_type'' No_spec,
      Literal string_ru_duration, Field ''duration'' Fixed_3f,
      Literal string_ru_distance, Field ''distance'' Fixed_3f,
      Literal string_ru_speed, Field ''speed'' Fixed_3f,
      Literal string_ru_calories, Field ''calories'' Fixed_3f,
      Literal ''.'']"




text \<open>
  \<^verbatim>\<open>asdict(self)\<close>: the fields by name, in the order of the dataclass. A value is a
  string or a float.
\<close>

datatype pyvalue = Str string | Float pyfloat


text \<open>
  \<^verbatim>\<open>str.format\<close> with keyword arguments. A replacement field looks its name up
  (\<^verbatim>\<open>KeyError\<close> when there is none) and formats the value: a string without a
  specification is itself, with \<^verbatim>\<open>.3f\<close> it is a \<^verbatim>\<open>ValueError\<close>. A float without a
  specification would be written in its shortest form, which the rational embedding
  does not have: the result is then \<open>None\<close>, no statement about the code. The pieces
  are formatted from left to right and the first error is raised.
\<close>

definition unknown_format_code :: string where
  "unknown_format_code =
     ''Unknown format code '' @ [CHR 0x27] @ ''f'' @ [CHR 0x27]
     @ '' for object of type '' @ [CHR 0x27] @ ''str'' @ [CHR 0x27]"

fun format_value :: "pyvalue \<Rightarrow> format_spec \<Rightarrow> (error + string) option" where
  "format_value (Str s) No_spec = Some (Inr s)"
| "format_value (Str s) Fixed_3f = Some (Inl (ValueError unknown_format_code))"
| "format_value (Float f) Fixed_3f = Some (Inr (format_3f f))"
| "format_value (Float f) No_spec = None"

fun format_piece :: "(string \<times> pyvalue) list \<Rightarrow> piece \<Rightarrow> (error + string) option" where
  "format_piece kwargs (Literal s) = Some (Inr s)"
| "format_piece kwargs (Field name spec) =
     (case map_of kwargs name of
        None \<Rightarrow> Some (Inl (KeyError name))
      | Some v \<Rightarrow> format_value v spec)"

fun format :: "piece list \<Rightarrow> (string \<times> pyvalue) list \<Rightarrow> (error + string) option" where
  "format [] kwargs = Some (Inr [])"
| "format (p # ps) kwargs =
     (case format_piece kwargs p of
        None \<Rightarrow> None
      | Some (Inl e) \<Rightarrow> Some (Inl e)
      | Some (Inr s) \<Rightarrow>
          (case format ps kwargs of
             None \<Rightarrow> None
           | Some (Inl e) \<Rightarrow> Some (Inl e)
           | Some (Inr t) \<Rightarrow> Some (Inr (s @ t))))"


text \<open>
  \<^verbatim>\<open>Training.show_training_info\<close>. The keyword arguments are evaluated from left to
  right, so a failing \<^verbatim>\<open>get_mean_speed\<close> is raised before \<^verbatim>\<open>get_spent_calories\<close>
  is called. \<^verbatim>\<open>string_ru\<close> is not passed and takes its default.
\<close>

definition show_training_info :: "training \<Rightarrow> error + InfoMessage" where
  "show_training_info self =
     (let d = get_distance self
      in case get_mean_speed self of
           Inl e \<Rightarrow> Inl e
         | Inr s \<Rightarrow>
             (case get_spent_calories self of
                Inl e \<Rightarrow> Inl e
              | Inr c \<Rightarrow>
                  Inr \<lparr>training_type = class_name self,
                       duration_msg = Finite (duration self),
                       distance = Finite d, speed = Finite s, calories = Finite c,
                       string_ru = string_ru_default\<rparr>))"


section \<open>Reading a package\<close>

text \<open>
  The values of the dictionary \<^verbatim>\<open>traning_types\<close> are classes. Calling a class with
  \<^verbatim>\<open>*data\<close> binds the items of \<^verbatim>\<open>data\<close> to the parameters of its \<^verbatim>\<open>__init__\<close> by
  position; Python raises \<^verbatim>\<open>TypeError\<close> when their number does not fit.
\<close>

datatype training_class = Swimming_class | Running_class | SportsWalking_class

fun construct :: "training_class \<Rightarrow> number list \<Rightarrow> error + training" where
  "construct Swimming_class data =
     (case data of [a, d, w, lp, cp] \<Rightarrow> Inr (Swimming a d w lp cp) | _ \<Rightarrow> Inl TypeError)"
| "construct Running_class data =
     (case data of [a, d, w] \<Rightarrow> Inr (Running a d w) | _ \<Rightarrow> Inl TypeError)"
| "construct SportsWalking_class data =
     (case data of [a, d, w, h] \<Rightarrow> Inr (SportsWalking a d w h) | _ \<Rightarrow> Inl TypeError)"

definition traning_types :: "string \<rightharpoonup> training_class" where
  "traning_types =
     map_of [(''SWM'', Swimming_class), (''RUN'', Running_class), (''WLK'', SportsWalking_class)]"

definition unknown_type_message :: "string \<Rightarrow> string" where
  "unknown_type_message workout_type =
     workout_type
     @ utf8 [0x20, 0x2D, 0x20, 0xD0, 0xBD, 0xD0, 0xB5, 0xD0, 0xB8, 0xD0, 0xB7, 0xD0, 0xB2,
             0xD0, 0xB5, 0xD1, 0x81, 0xD1, 0x82, 0xD0, 0xBD, 0xD1, 0x8B, 0xD0, 0xB9, 0x20,
             0xD1, 0x82, 0xD0, 0xB8, 0xD0, 0xBF, 0x20, 0xD1, 0x82, 0xD1, 0x80, 0xD0, 0xB5,
             0xD0, 0xBD, 0xD0, 0xB8, 0xD1, 0x80, 0xD0, 0xBE, 0xD0, 0xB2, 0xD0, 0xBA, 0xD0,
             0xB8, 0x2E]"

definition read_package :: "string \<Rightarrow> number list \<Rightarrow> error + training" where
  "read_package workout_type data =
     (case traning_types workout_type of
        None \<Rightarrow> Inl (ValueError (unknown_type_message workout_type))
      | Some cls \<Rightarrow> construct cls data)"


section \<open>The methods as operations on the instance\<close>

text \<open>
  A method receives the instance and could assign to its attributes. Here each method
  returns its result together with the instance as the method leaves it, and a method
  that calls another one continues with the instance that call left.
\<close>

definition get_distance_st :: "training \<Rightarrow> number \<times> training" where
  "get_distance_st self =
     (let distance_meters = action self * LEN_STEP self;
          distance = distance_meters / M_IN_KM
      in (distance, self))"

fun get_mean_speed_st :: "training \<Rightarrow> (error + number) \<times> training" where
  "get_mean_speed_st (Swimming a d w lp cp) =
     (let distance_meters = lp * cp;
          distance_km = distance_meters / M_IN_KM
      in (truediv distance_km d, Swimming a d w lp cp))"
| "get_mean_speed_st self =
     (let (dist, self1) = get_distance_st self
      in (truediv dist (duration self1), self1))"

fun get_spent_calories_st :: "training \<Rightarrow> (error + number) \<times> training" where
  "get_spent_calories_st (Training a d w) =
     (Inl (NotImplementedError (not_implemented_message (class_name (Training a d w)))),
      Training a d w)"
| "get_spent_calories_st (Running a d w) =
     (let duration_min = d * MIN_IN_HOUR;
          (r, self1) = get_mean_speed_st (Running a d w)
      in case r of
           Inl e \<Rightarrow> (Inl e, self1)
         | Inr mean_speed \<Rightarrow>
             (let calc_speed_coef = COEF_CALORIE_1 * mean_speed;
                  calc_avg_speed = (calc_speed_coef - COEF_CALORIE_2) * weight self1;
                  spent_calories = calc_avg_speed / M_IN_KM * duration_min
              in (Inr spent_calories, self1)))"
| "get_spent_calories_st (SportsWalking a d w h) =
     (let duration_min = d * MIN_IN_HOUR;
          (r, self1) = get_mean_speed_st (SportsWalking a d w h)
      in case r of
           Inl e \<Rightarrow> (Inl e, self1)
         | Inr mean_speed \<Rightarrow>
             (case floordiv (mean_speed ^ COEFF_SQUARE) (height self1) of
                Inl e \<Rightarrow> (Inl e, self1)
              | Inr calc_formula \<Rightarrow>
                  (let calc_weight_coef1 = COEFF_CALORIE_1 * weight self1;
                       calc_weight_coef2 = COEFF_CALORIE_2 * weight self1;
                       spent_calories =
                         (calc_weight_coef1 + calc_formula * calc_weight_coef2) * duration_min
                   in (Inr spent_calories, self1))))"
| "get_spent_calories_st (Swimming a d w lp cp) =
     (let (r, self1) = get_mean_speed_st (Swimming a d w lp cp)
      in case r of
           Inl e \<Rightarrow> (Inl e, self1)
         | Inr mean_speed \<Rightarrow>
             (let coef_speed = mean_speed + COEF_CALORIE;
                  coef_swim = coef_speed * COEF_SWM;
                  spent_calories = coef_swim * weight self1
              in (Inr spent_calories, self1)))"

definition show_training_info_st :: "training \<Rightarrow> (error + InfoMessage) \<times> training" where
  "show_training_info_st self =
     (let tt = class_name self;
          du = duration self;
          (d, self1) = get_distance_st self;
          (rs, self2) = get_mean_speed_st self1
      in case rs of
           Inl e \<Rightarrow> (Inl e, self2)
         | Inr s \<Rightarrow>
             (let (rc, self3) = get_spent_calories_st self2
              in case rc of
                   Inl e \<Rightarrow> (Inl e, self3)
                 | Inr c \<Rightarrow>
                     (Inr \<lparr>training_type = tt, duration_msg = Finite du,
                           distance = Finite d, speed = Finite s, calories = Finite c,
                           string_ru = string_ru_default\<rparr>, self3)))"


section \<open>Facts used throughout\<close>

lemmas class_constants =
  M_IN_KM_def MIN_IN_HOUR_def COEF_CALORIE_1_def COEF_CALORIE_2_def
  COEFF_CALORIE_1_def COEFF_CALORIE_2_def COEFF_SQUARE_def COEF_SWM_def COEF_CALORIE_def





lemma unknown_type_message_code:
  "unknown_type_message code = code @ unknown_type_message []"
  by (simp add: unknown_type_message_def)

lemma traning_types_None:
  "code \<notin> {''SWM'', ''RUN'', ''WLK''} \<Longrightarrow> traning_types code = None"
  by (simp add: traning_types_def)

lemma traning_types_Some:
  "traning_types code = Some cls \<longleftrightarrow>
     (code = ''SWM'' \<and> cls = Swimming_class) \<or> (code = ''RUN'' \<and> cls = Running_class)
     \<or> (code = ''WLK'' \<and> cls = SportsWalking_class)"
  by (auto simp add: traning_types_def split: if_splits)

lemma construct_Inl: "construct cls data = Inl e \<Longrightarrow> e = TypeError"
  by (cases cls) (auto split: list.splits)

lemma construct_Inr:
  "construct cls data = Inr t \<longleftrightarrow>
     (cls = Swimming_class
        \<and> (\<exists>a d w lp cp. data = [a, d, w, lp, cp] \<and> t = Swimming a d w lp cp))
   \<or> (cls = Running_class \<and> (\<exists>a d w. data = [a, d, w] \<and> t = Running a d w))
   \<or> (cls = SportsWalking_class
        \<and> (\<exists>a d w h. data = [a, d, w, h] \<and> t = SportsWalking a d w h))"
  by (cases cls) (auto split: list.splits)














text \<open>Each method leaves the instance as it found it and returns what the function does.\<close>

lemma get_distance_st_eq: "get_distance_st self = (get_distance self, self)"
  by (simp add: get_distance_st_def get_distance_def)

lemma get_mean_speed_st_eq: "get_mean_speed_st self = (get_mean_speed self, self)"
  by (cases self) (simp_all add: get_distance_st_eq)

lemma get_spent_calories_st_eq:
  "get_spent_calories_st self = (get_spent_calories self, self)"
  by (cases self) (simp_all add: get_mean_speed_st_eq Let_def split: sum.splits)

lemma show_training_info_st_eq:
  "show_training_info_st self = (show_training_info self, self)"
  by (simp add: show_training_info_st_def show_training_info_def get_distance_st_eq
      get_mean_speed_st_eq get_spent_calories_st_eq Let_def split: sum.splits)


section \<open>Distance\<close>

text \<open>
  C5 (as amended). \<^verbatim>\<open>get_distance\<close> computes \<^verbatim>\<open>action * LEN_STEP / 1000\<close> with the
  step length of the instance's class: 0.65 for the base class, running and walking,
  1.38 for swimming. For a swimming workout with \<^verbatim>\<open>action = 720\<close> that is 0.9936 km.
  The swimming speed does not use it: it is the same for every \<^verbatim>\<open>action\<close>.
\<close>

theorem get_distance_step_length:
  "get_distance (Training a d w) = a * 0.65 / 1000
   \<and> get_distance (Running a d w) = a * 0.65 / 1000
   \<and> get_distance (SportsWalking a d w h) = a * 0.65 / 1000
   \<and> get_distance (Swimming a d w lp cp) = a * 1.38 / 1000
   \<and> get_distance (Swimming 720 d w lp cp) = 0.9936
   \<and> get_mean_speed (Swimming a d w lp cp) = get_mean_speed (Swimming a' d w lp cp)"
  by (simp add: get_distance_def M_IN_KM_def)

text \<open>
  C5 as stated fails: the swimming workout of the sample data, \<^verbatim>\<open>action = 720\<close>, does
  not have the distance 0.468 km (which is \<^verbatim>\<open>720 * 0.65 / 1000\<close>, the step length of the
  other classes).
\<close>

theorem get_distance_swimming_720_counterexample:
  "get_distance (Swimming 720 1 80 25 40) \<noteq> 0.468
   \<and> get_distance (Swimming 720 1 80 25 40) = 0.9936"
  by (simp add: get_distance_def M_IN_KM_def)


section \<open>Calories and mean speed\<close>

text \<open>
  C1 (as amended). For a running workout with a positive duration the mean speed is
  \<^verbatim>\<open>(action * 0.65 / 1000) / duration\<close> and \<^verbatim>\<open>get_spent_calories\<close> returns
  \<^verbatim>\<open>((18 * mean_speed - 20) * weight / 1000) * (duration * 60)\<close>. For
  \<^verbatim>\<open>action = 15000\<close>, \<^verbatim>\<open>duration = 1\<close>, \<^verbatim>\<open>weight = 75\<close> the distance is 9.75 km, the
  mean speed 9.75 km/h and the calories 699.75 kcal.
\<close>

theorem running_spent_calories:
  "0 < d \<Longrightarrow>
     get_mean_speed (Running a d w) = Inr ((a * 0.65 / 1000) / d)
   \<and> get_spent_calories (Running a d w)
       = Inr (((18 * ((a * 0.65 / 1000) / d) - 20) * w / 1000) * (d * 60))
   \<and> get_distance (Running 15000 1 75) = 9.75
   \<and> get_mean_speed (Running 15000 1 75) = Inr 9.75
   \<and> get_spent_calories (Running 15000 1 75) = Inr 699.75"
  by (simp add: get_distance_def truediv_def class_constants)

theorem running_spent_calories_witness:
  "(0::rat) < 1
   \<and> get_mean_speed (Running 15000 1 75) = Inr ((15000 * 0.65 / 1000) / 1)
   \<and> get_spent_calories (Running 15000 1 75)
       = Inr (((18 * ((15000 * 0.65 / 1000) / 1) - 20) * 75 / 1000) * (1 * 60))
   \<and> get_spent_calories (Running 15000 1 75) = Inr 699.75"
proof -
  have h: "(0::rat) < 1" by simp
  show ?thesis using h running_spent_calories [OF h, of 15000 75] by blast
qed

text \<open>
  C1 as stated fails at its own sample: the calories of the running workout
  \<^verbatim>\<open>action = 15000\<close>, \<^verbatim>\<open>duration = 1\<close>, \<^verbatim>\<open>weight = 75\<close> are not 700.05 kcal. The formula
  gives \<^verbatim>\<open>(18 * 9.75 - 20) * 75 / 1000 * 60 = 699.75\<close>.
\<close>

theorem running_sample_calories_counterexample:
  "get_spent_calories (Running 15000 1 75) \<noteq> Inr 700.05
   \<and> get_spent_calories (Running 15000 1 75) = Inr 699.75"
  by (simp add: get_distance_def truediv_def class_constants)



text \<open>
  C3. For a swimming workout with a positive duration, \<^verbatim>\<open>get_mean_speed\<close> returns
  \<^verbatim>\<open>(length_pool * count_pool / 1000) / duration\<close>, whatever the distance by steps is,
  and \<^verbatim>\<open>get_spent_calories\<close> returns \<^verbatim>\<open>(mean_speed + 1.1) * 2 * weight\<close>. For
  \<^verbatim>\<open>duration = 1\<close>, \<^verbatim>\<open>weight = 80\<close>, \<^verbatim>\<open>length_pool = 25\<close>, \<^verbatim>\<open>count_pool = 40\<close> the mean
  speed is 1 km/h and the calories are 336 kcal.
\<close>

theorem swimming_speed_and_calories:
  "0 < d \<Longrightarrow>
     get_mean_speed (Swimming a d w lp cp) = Inr ((lp * cp / 1000) / d)
   \<and> get_spent_calories (Swimming a d w lp cp) = Inr (((lp * cp / 1000) / d + 1.1) * 2 * w)
   \<and> get_mean_speed (Swimming a 1 80 25 40) = Inr 1.0
   \<and> get_spent_calories (Swimming a 1 80 25 40) = Inr 336.0"
  by (simp add: truediv_def class_constants)

theorem swimming_speed_and_calories_witness:
  "(0::rat) < 1
   \<and> get_mean_speed (Swimming 720 1 80 25 40) = Inr ((25 * 40 / 1000) / 1)
   \<and> get_spent_calories (Swimming 720 1 80 25 40) = Inr (((25 * 40 / 1000) / 1 + 1.1) * 2 * 80)
   \<and> get_spent_calories (Swimming 720 1 80 25 40) = Inr 336.0"
proof -
  have h: "(0::rat) < 1" by simp
  show ?thesis
    using h swimming_speed_and_calories [OF h, of 720 80 25 40]
      swimming_speed_and_calories [OF h, of 720 w lp cp for w lp cp]
    by blast
qed

text \<open>
  C7. \<^verbatim>\<open>get_spent_calories\<close> of the base class raises \<^verbatim>\<open>NotImplementedError\<close>, with a
  message that names the class, for every instance: it never returns a number.
\<close>

theorem base_spent_calories_not_implemented:
  "get_spent_calories (Training a d w)
     = Inl (NotImplementedError (not_implemented_message ''Training''))
   \<and> (\<forall>v. get_spent_calories (Training a d w) \<noteq> Inr v)"
  by simp

text \<open>
  C9. Two swimming workouts that agree on duration, weight, pool length and pool
  count have the same mean speed and the same calories (the same error when the
  duration is zero), whatever their \<^verbatim>\<open>action\<close> values; their distances are equal only
  when the \<^verbatim>\<open>action\<close> values are.
\<close>

theorem swimming_action_noninterference:
  "get_mean_speed (Swimming a1 d w lp cp) = get_mean_speed (Swimming a2 d w lp cp)
   \<and> get_spent_calories (Swimming a1 d w lp cp) = get_spent_calories (Swimming a2 d w lp cp)
   \<and> (get_distance (Swimming a1 d w lp cp) = get_distance (Swimming a2 d w lp cp)
        \<longleftrightarrow> a1 = a2)"
  by (simp add: get_distance_def class_constants)




section \<open>The factory\<close>

text \<open>
  C4. \<^verbatim>\<open>read_package\<close> maps exactly the codes SWM, RUN and WLK to an instance of
  \<^verbatim>\<open>Swimming\<close>, \<^verbatim>\<open>Running\<close> and \<^verbatim>\<open>SportsWalking\<close> built from the given data. For
  every other code it raises \<^verbatim>\<open>ValueError\<close> with a message that starts with the code,
  and builds nothing. \<^verbatim>\<open>ValueError\<close> is raised for no recognised code: the one other
  failure is the \<^verbatim>\<open>TypeError\<close> of a call with the wrong number of arguments, which
  the function does not check.
\<close>

theorem read_package_dispatch:
  "read_package ''SWM'' [a, d, w, lp, cp] = Inr (Swimming a d w lp cp)
   \<and> read_package ''RUN'' [a, d, w] = Inr (Running a d w)
   \<and> read_package ''WLK'' [a, d, w, h] = Inr (SportsWalking a d w h)
   \<and> (code \<notin> {''SWM'', ''RUN'', ''WLK''} \<longrightarrow>
        read_package code data = Inl (ValueError (code @ unknown_type_message [])))
   \<and> (read_package code data = Inl (ValueError m) \<longrightarrow> code \<notin> {''SWM'', ''RUN'', ''WLK''})
   \<and> (read_package code data = Inl e \<longrightarrow>
        e = ValueError (unknown_type_message code) \<or> e = TypeError)
   \<and> (read_package code data = Inr t \<longrightarrow>
        (code = ''SWM''
           \<and> (\<exists>a d w lp cp. data = [a, d, w, lp, cp] \<and> t = Swimming a d w lp cp))
      \<or> (code = ''RUN'' \<and> (\<exists>a d w. data = [a, d, w] \<and> t = Running a d w))
      \<or> (code = ''WLK''
           \<and> (\<exists>a d w h. data = [a, d, w, h] \<and> t = SportsWalking a d w h)))"
proof (intro conjI impI)
  show "read_package ''SWM'' [a, d, w, lp, cp] = Inr (Swimming a d w lp cp)"
    by (simp add: read_package_def traning_types_def)
  show "read_package ''RUN'' [a, d, w] = Inr (Running a d w)"
    by (simp add: read_package_def traning_types_def)
  show "read_package ''WLK'' [a, d, w, h] = Inr (SportsWalking a d w h)"
    by (simp add: read_package_def traning_types_def)
next
  assume "code \<notin> {''SWM'', ''RUN'', ''WLK''}"
  then have "traning_types code = None"
    by (rule traning_types_None)
  then show "read_package code data = Inl (ValueError (code @ unknown_type_message []))"
    using unknown_type_message_code [of code] by (simp add: read_package_def)
next
  assume "read_package code data = Inl (ValueError m)"
  then show "code \<notin> {''SWM'', ''RUN'', ''WLK''}"
    by (auto simp add: read_package_def traning_types_def split: list.splits)
next
  assume "read_package code data = Inl e"
  then show "e = ValueError (unknown_type_message code) \<or> e = TypeError"
    by (auto simp add: read_package_def split: option.splits dest: construct_Inl)
next
  assume "read_package code data = Inr t"
  then show "(code = ''SWM''
           \<and> (\<exists>a d w lp cp. data = [a, d, w, lp, cp] \<and> t = Swimming a d w lp cp))
      \<or> (code = ''RUN'' \<and> (\<exists>a d w. data = [a, d, w] \<and> t = Running a d w))
      \<or> (code = ''WLK''
           \<and> (\<exists>a d w h. data = [a, d, w, h] \<and> t = SportsWalking a d w h))"
    by (auto simp add: read_package_def traning_types_Some construct_Inr
        split: option.splits)
qed

theorem read_package_dispatch_witness:
  "''XYZ'' \<notin> {''SWM'', ''RUN'', ''WLK''}
   \<and> read_package ''XYZ'' [720, 1, 80, 25, 40]
       = Inl (ValueError (''XYZ'' @ unknown_type_message []))
   \<and> read_package ''SWM'' [720, 1, 80, 25, 40] = Inr (Swimming 720 1 80 25 40)
   \<and> read_package ''RUN'' [15000, 1, 75] = Inr (Running 15000 1 75)
   \<and> read_package ''WLK'' [9000, 1, 75, 180] = Inr (SportsWalking 9000 1 75 180)
   \<and> read_package ''RUN'' [720, 1, 80, 25, 40] = Inl TypeError"
proof -
  have unknown: "''XYZ'' \<notin> {''SWM'', ''RUN'', ''WLK''}"
    by simp
  have arity: "read_package ''RUN'' [720, 1, 80, 25, 40] = Inl TypeError"
    by (simp add: read_package_def traning_types_def)
  note at_unknown =
    read_package_dispatch [where code = "''XYZ''" and data = "[720, 1, 80, 25, 40]"]
  note at_sample =
    read_package_dispatch [where a = 720 and d = 1 and w = 80 and lp = 25 and cp = 40]
  note at_running = read_package_dispatch [where a = 15000 and d = 1 and w = 75]
  note at_walking = read_package_dispatch [where a = 9000 and d = 1 and w = 75 and h = 180]
  show ?thesis
    using unknown arity at_unknown at_sample at_running at_walking by blast
qed


section \<open>Rendering\<close>





section \<open>No mutation\<close>

text \<open>
  C8. No call of \<^verbatim>\<open>get_distance\<close>, \<^verbatim>\<open>get_mean_speed\<close>, \<^verbatim>\<open>get_spent_calories\<close> or
  \<^verbatim>\<open>show_training_info\<close> changes the instance, of whatever class, and a second call
  of \<^verbatim>\<open>show_training_info\<close> on the instance the first call left gives the result of
  the first: the same message values, or the same error. A running or swimming workout
  with a positive duration, and a walking workout with a positive duration and a
  positive height, gives message values.
\<close>

theorem show_training_info_idempotent:
  "snd (get_distance_st self) = self
   \<and> snd (get_mean_speed_st self) = self
   \<and> snd (get_spent_calories_st self) = self
   \<and> snd (show_training_info_st self) = self
   \<and> fst (show_training_info_st (snd (show_training_info_st self)))
       = fst (show_training_info_st self)
   \<and> (0 < d \<longrightarrow> (\<exists>m. fst (show_training_info_st (Running a d w)) = Inr m))
   \<and> (0 < d \<and> 0 < h \<longrightarrow>
        (\<exists>m. fst (show_training_info_st (SportsWalking a d w h)) = Inr m))
   \<and> (0 < d \<longrightarrow> (\<exists>m. fst (show_training_info_st (Swimming a d w lp cp)) = Inr m))"
  by (simp add: get_distance_st_eq get_mean_speed_st_eq get_spent_calories_st_eq
      show_training_info_st_eq show_training_info_def truediv_def floordiv_def)

theorem show_training_info_idempotent_witness:
  "(0::rat) < 1 \<and> (0::rat) < 180
   \<and> show_training_info_st (Swimming 720 1 80 25 40)
       = (Inr \<lparr>training_type = ''Swimming'', duration_msg = Finite 1,
                distance = Finite 0.9936, speed = Finite 1, calories = Finite 336,
                string_ru = string_ru_default\<rparr>, Swimming 720 1 80 25 40)
   \<and> show_training_info_st (Running 15000 1 75)
       = (Inr \<lparr>training_type = ''Running'', duration_msg = Finite 1,
                distance = Finite 9.75, speed = Finite 9.75, calories = Finite 699.75,
                string_ru = string_ru_default\<rparr>, Running 15000 1 75)
   \<and> show_training_info_st (SportsWalking 9000 1 75 180)
       = (Inr \<lparr>training_type = ''SportsWalking'', duration_msg = Finite 1,
                distance = Finite 5.85, speed = Finite 5.85, calories = Finite 157.5,
                string_ru = string_ru_default\<rparr>, SportsWalking 9000 1 75 180)
   \<and> fst (show_training_info_st (snd (show_training_info_st (Running 15000 1 75))))
       = fst (show_training_info_st (Running 15000 1 75))"
  using
    show_training_info_idempotent
      [where self = "Running 15000 1 75" and d = 1 and a = 15000 and w = 75 and h = 180]
    show_training_info_idempotent
      [where self = "SportsWalking 9000 1 75 180" and d = 1 and a = 9000 and w = 75
        and h = 180]
    show_training_info_idempotent
      [where self = "Swimming 720 1 80 25 40" and d = 1 and a = 720 and w = 80 and h = 180
        and lp = 25 and cp = 40]
  by (simp add: show_training_info_st_def get_distance_st_def class_constants truediv_def
      floordiv_def floor_eq_iff power2_eq_square)

end
